theory Spec2Isabelle
  imports Complex_Main "HOL-Library.AList"
begin

section \<open>Numbers and exceptions\<close>

text \<open>
  Python floats are idealised: a finite float is a real number (rounding and overflow are
  not modelled), and the three special values of the float type are kept, since the code
  returns and tests \<open>np.inf\<close> explicitly.
\<close>

datatype pyfloat = Fin real | PInf | NInf | NaN

datatype exn = AssertionError | ZeroDivisionError | ValueError | AttributeError

type_synonym 'a res = "exn + 'a"

fun fneg :: "pyfloat \<Rightarrow> pyfloat" where
  "fneg (Fin a) = Fin (- a)"
| "fneg PInf = NInf"
| "fneg NInf = PInf"
| "fneg NaN = NaN"

fun fadd :: "pyfloat \<Rightarrow> pyfloat \<Rightarrow> pyfloat" where
  "fadd NaN y = NaN"
| "fadd x NaN = NaN"
| "fadd (Fin a) (Fin b) = Fin (a + b)"
| "fadd (Fin a) y = y"
| "fadd x (Fin b) = x"
| "fadd PInf PInf = PInf"
| "fadd NInf NInf = NInf"
| "fadd PInf NInf = NaN"
| "fadd NInf PInf = NaN"

definition fsub :: "pyfloat \<Rightarrow> pyfloat \<Rightarrow> pyfloat" where
  "fsub x y = fadd x (fneg y)"

text \<open>The sign of an infinite product: \<open>0 * inf\<close> is NaN.\<close>

definition inf_signed :: "real \<Rightarrow> pyfloat" where
  "inf_signed s = (if s > 0 then PInf else if s < 0 then NInf else NaN)"

fun fmul :: "pyfloat \<Rightarrow> pyfloat \<Rightarrow> pyfloat" where
  "fmul NaN y = NaN"
| "fmul x NaN = NaN"
| "fmul (Fin a) (Fin b) = Fin (a * b)"
| "fmul (Fin a) PInf = inf_signed a"
| "fmul (Fin a) NInf = inf_signed (- a)"
| "fmul PInf (Fin b) = inf_signed b"
| "fmul NInf (Fin b) = inf_signed (- b)"
| "fmul PInf PInf = PInf"
| "fmul NInf NInf = PInf"
| "fmul PInf NInf = NInf"
| "fmul NInf PInf = NInf"

text \<open>
  Division of a float by a finite, nonzero float, as at every call site below where the
  divisor is \<open>x - 1\<close> with \<open>x > 1\<close>. A zero divisor gives NaN or an infinity, as numpy
  does; Python's own float division raises there, see \<open>py_truediv\<close>.
\<close>

fun fdiv :: "pyfloat \<Rightarrow> real \<Rightarrow> pyfloat" where
  "fdiv NaN b = NaN"
| "fdiv (Fin a) b = (if b = 0 then inf_signed a else Fin (a / b))"
| "fdiv PInf b = (if b < 0 then NInf else PInf)"
| "fdiv NInf b = (if b < 0 then PInf else NInf)"

definition py_truediv :: "real \<Rightarrow> real \<Rightarrow> pyfloat res" where
  "py_truediv a b = (if b = 0 then Inl ZeroDivisionError else Inr (Fin (a / b)))"

text \<open>Comparisons: every comparison with NaN is false.\<close>

fun fle :: "pyfloat \<Rightarrow> pyfloat \<Rightarrow> bool" where
  "fle NaN y = False"
| "fle x NaN = False"
| "fle (Fin a) (Fin b) = (a \<le> b)"
| "fle NInf y = True"
| "fle x PInf = True"
| "fle x y = False"

definition flt :: "pyfloat \<Rightarrow> pyfloat \<Rightarrow> bool" where
  "flt x y = (fle x y \<and> x \<noteq> y)"

definition isinf :: "pyfloat \<Rightarrow> bool" where
  "isinf x = (x = PInf \<or> x = NInf)"

text \<open>Python's \<open>min(a, b)\<close> returns \<open>b\<close> when \<open>b < a\<close> and \<open>a\<close> otherwise.\<close>

definition py_min :: "pyfloat \<Rightarrow> pyfloat \<Rightarrow> pyfloat" where
  "py_min a b = (if flt b a then b else a)"

text \<open>\<open>np.maximum\<close> and \<open>np.minimum\<close> propagate NaN.\<close>

definition np_maximum :: "pyfloat \<Rightarrow> pyfloat \<Rightarrow> pyfloat" where
  "np_maximum a b = (if a = NaN \<or> b = NaN then NaN else if fle a b then b else a)"

definition np_minimum :: "pyfloat \<Rightarrow> pyfloat \<Rightarrow> pyfloat" where
  "np_minimum a b = (if a = NaN \<or> b = NaN then NaN else if fle a b then a else b)"

fun np_log :: "pyfloat \<Rightarrow> pyfloat" where
  "np_log (Fin a) = (if a > 0 then Fin (ln a) else if a = 0 then NInf else NaN)"
| "np_log PInf = PInf"
| "np_log NInf = NaN"
| "np_log NaN = NaN"

fun np_exp :: "pyfloat \<Rightarrow> pyfloat" where
  "np_exp (Fin a) = Fin (exp a)"
| "np_exp PInf = PInf"
| "np_exp NInf = Fin 0"
| "np_exp NaN = NaN"

section \<open>Stable log-arithmetic\<close>

text \<open>
  Modelled from the spec: the module \<open>autodp.utils\<close> is not among the source files.
  Section 4.1 of the specification gives \<open>log_sinh(x) = log(sinh(x))\<close> and
  \<open>log_diff_exp(a, b) = (sign, log|e^a - e^b|)\<close> with magnitude \<open>-inf\<close> when \<open>a = b\<close>.
  Outside the arguments the specification speaks about the result is NaN.
\<close>

definition stable_log_sinh :: "real \<Rightarrow> pyfloat" where
  "stable_log_sinh x = (if x > 0 then Fin (ln (sinh x)) else if x = 0 then NInf else NaN)"

fun stable_log_diff_exp :: "pyfloat \<Rightarrow> pyfloat \<Rightarrow> int \<times> pyfloat" where
  "stable_log_diff_exp (Fin a) (Fin b) =
     (if a = b then (1, NInf) else (if a > b then 1 else - 1, Fin (ln \<bar>exp a - exp b\<bar>)))"
| "stable_log_diff_exp (Fin a) NInf = (1, Fin a)"
| "stable_log_diff_exp NInf (Fin b) = (- 1, Fin b)"
| "stable_log_diff_exp NInf NInf = (1, NInf)"
| "stable_log_diff_exp x y = (1, NaN)"

section \<open>Converters\<close>

subsection \<open>\<open>puredp_to_rdp\<close>\<close>

text \<open>
  \<open>puredp_to_rdp(eps)\<close> asserts \<open>eps >= 0\<close> and returns the closure \<open>rdp\<close>. The
  parameter \<open>eps\<close> is a finite Python float; the order \<open>alpha\<close> may be \<open>np.inf\<close>.
  \<open>math.cosh\<close> and \<open>math.sinh\<close> return Python floats, so the division by
  \<open>math.sinh(eps)\<close> is Python's and raises on a zero divisor. \<open>math.cosh\<close> raises
  OverflowError for \<open>eps\<close> beyond about 710; as overflow is not modelled, \<open>rdp_limit\<close>
  is the program's value for small \<open>eps\<close> only, and the properties below use it at
  \<open>eps = 0\<close> and \<open>eps = 2\<close>.
\<close>

definition rdp_limit :: "real \<Rightarrow> pyfloat res" where
  "rdp_limit eps = py_truediv (eps * (cosh eps - 1)) (sinh eps)"

definition puredp_rdp :: "real \<Rightarrow> pyfloat \<Rightarrow> pyfloat res" where
  "puredp_rdp eps alpha =
     (if \<not> fle (Fin 0) alpha then Inl AssertionError
      else if alpha = Fin 1 then rdp_limit eps
      else if isinf alpha then Inr (Fin eps)
      else if flt (Fin 1) alpha then
        (case alpha of
           Fin a \<Rightarrow>
             (let (s, mag) = stable_log_diff_exp (stable_log_sinh (a * eps))
                                                 (stable_log_sinh ((a - 1) * eps))
              in Inr (fdiv (fsub mag (stable_log_sinh eps)) (a - 1)))
         | _ \<Rightarrow> Inr NaN)
      else
        (case alpha of
           Fin a \<Rightarrow>
             (case rdp_limit eps of
                Inl e \<Rightarrow> Inl e
              | Inr l \<Rightarrow> Inr (py_min (Fin (a * eps * eps / 2)) l))
         | _ \<Rightarrow> Inr NaN))"

definition puredp_to_rdp :: "real \<Rightarrow> (pyfloat \<Rightarrow> pyfloat res) res" where
  "puredp_to_rdp eps = (if \<not> eps \<ge> 0 then Inl AssertionError else Inr (puredp_rdp eps))"

subsection \<open>\<open>rdp_to_approxdp\<close>\<close>

text \<open>
  \<open>scipy.optimize.minimize_scalar\<close> is an external library: it is a parameter of the
  model, a function from the objective and the keyword arguments of the call to an
  \<open>OptimizeResult\<close>, or to the exception that the objective raised inside it.
\<close>

record OptimizeResult =
  opt_success :: bool
  opt_x :: real
  opt_fun :: pyfloat

record ms_args =
  ms_method :: "string option"
  ms_bracket :: "(real \<times> real) option"
  ms_bounds :: "(real \<times> pyfloat) option"
  ms_xatol :: "real option"

type_synonym minimize_scalar = "(real \<Rightarrow> pyfloat res) \<Rightarrow> ms_args \<Rightarrow> OptimizeResult res"

text \<open>The objective \<open>fun(x)\<close> of the inner search over the order.\<close>

definition approxdp_fun :: "(pyfloat \<Rightarrow> pyfloat res) \<Rightarrow> bool \<Rightarrow> real \<Rightarrow> real \<Rightarrow> pyfloat res" where
  "approxdp_fun rdp BBGHS_conversion delta x =
     (if x \<le> 1 then Inr PInf
      else
        (case rdp (Fin x) of
           Inl e \<Rightarrow> Inl e
         | Inr r \<Rightarrow>
             if BBGHS_conversion then
               Inr (np_maximum
                      (fsub (fadd r (np_log (Fin ((x - 1) / x))))
                            (fdiv (fadd (np_log (Fin delta)) (np_log (Fin x))) (x - 1)))
                      (Fin 0))
             else Inr (fadd (fdiv (np_log (Fin (1 / delta))) (x - 1)) r)))"

text \<open>
  The closure \<open>approxdp(delta)\<close>. The first component of the result is what the call
  prints on standard output, the second its value or the exception it raises.
\<close>

definition approxdp_args :: "pyfloat \<Rightarrow> ms_args" where
  "approxdp_args alpha_max =
     \<lparr>ms_method = Some ''Brent'', ms_bracket = Some (1, 2),
      ms_bounds = Some (1, alpha_max), ms_xatol = None\<rparr>"

definition delta_message :: string where
  "delta_message = ''Error! delta is a probability and must be between 0 and 1''"

definition rdp_to_approxdp ::
  "minimize_scalar \<Rightarrow> (pyfloat \<Rightarrow> pyfloat res) \<Rightarrow> pyfloat \<Rightarrow> bool \<Rightarrow> real \<Rightarrow> string list \<times> pyfloat res" where
  "rdp_to_approxdp ms rdp alpha_max BBGHS_conversion delta =
     (let out = (if delta < 0 \<or> delta > 1 then [delta_message] else [])
      in if delta = 0 then (out, rdp PInf)
         else
           (out,
            case ms (approxdp_fun rdp BBGHS_conversion delta) (approxdp_args alpha_max) of
              Inl e \<Rightarrow> Inl e
            | Inr results \<Rightarrow>
                if opt_success results then Inr (opt_fun results) else Inr PInf))"

subsection \<open>\<open>single_rdp_to_fdp\<close>\<close>

text \<open>
  Modelled from the spec: \<open>utils.stable_logsumexp_two(a, b)\<close> is \<open>log(e^a + e^b)\<close>
  (Section 4.1); the module \<open>autodp.utils\<close> is not among the source files.
\<close>

fun stable_logsumexp_two :: "pyfloat \<Rightarrow> pyfloat \<Rightarrow> pyfloat" where
  "stable_logsumexp_two NaN y = NaN"
| "stable_logsumexp_two x NaN = NaN"
| "stable_logsumexp_two PInf y = PInf"
| "stable_logsumexp_two x PInf = PInf"
| "stable_logsumexp_two NInf y = y"
| "stable_logsumexp_two x NInf = x"
| "stable_logsumexp_two (Fin a) (Fin b) = Fin (ln (exp a + exp b))"

fun fabs :: "pyfloat \<Rightarrow> pyfloat" where
  "fabs (Fin a) = Fin \<bar>a\<bar>"
| "fabs PInf = PInf"
| "fabs NInf = PInf"
| "fabs NaN = NaN"

definition np_log_r :: "real \<Rightarrow> pyfloat" where
  "np_log_r a = np_log (Fin a)"

text \<open>The objective \<open>fun(y)\<close> of the root search, for \<open>alpha = 1\<close> and for the other orders.\<close>

definition fdp_fun :: "real \<Rightarrow> pyfloat \<Rightarrow> real \<Rightarrow> real \<Rightarrow> pyfloat res" where
  "fdp_fun alpha rho x y =
     (if alpha = 1 then
        (if \<not> (0 \<le> y \<and> y \<le> 1 - x) then Inl AssertionError
         else if y = 0 then (if x = 1 then Inr (Fin 0) else Inr PInf)
         else if y = 1 then (if x = 0 then Inr (Fin 0) else Inr PInf)
         else
           (let diff1 = fsub (fadd (fmul (Fin x) (fsub (np_log_r x) (np_log_r (1 - y))))
                                   (fmul (Fin (1 - x)) (fsub (np_log_r (1 - x)) (np_log_r y))))
                             rho;
                diff2 = fsub (fadd (fmul (Fin y) (fsub (np_log_r y) (np_log_r (1 - x))))
                                   (fmul (Fin (1 - y)) (fsub (np_log_r (1 - y)) (np_log_r x))))
                             rho
            in Inr (np_maximum diff1 diff2)))
      else
        (if y = 0 then (if x = 1 then Inr (Fin 0) else Inr PInf)
         else if y = 1 then (if x = 0 then Inr (Fin 0) else Inr PInf)
         else
           (let diff1 = fsub (stable_logsumexp_two
                                (fadd (fmul (Fin alpha) (np_log_r x))
                                      (fmul (Fin (1 - alpha)) (np_log_r (1 - y))))
                                (fadd (fmul (Fin alpha) (np_log_r (1 - x)))
                                      (fmul (Fin (1 - alpha)) (np_log_r y))))
                             (fmul rho (Fin (alpha - 1)));
                diff2 = fsub (stable_logsumexp_two
                                (fadd (fmul (Fin alpha) (np_log_r y))
                                      (fmul (Fin (1 - alpha)) (np_log_r (1 - x))))
                                (fadd (fmul (Fin alpha) (np_log_r (1 - y)))
                                      (fmul (Fin (1 - alpha)) (np_log_r x))))
                             (fmul rho (Fin (alpha - 1)))
            in if alpha > 1 then Inr (np_maximum diff1 diff2)
               else Inr (np_minimum diff1 diff2))))"

definition normal_equation :: "real \<Rightarrow> pyfloat \<Rightarrow> real \<Rightarrow> real \<Rightarrow> pyfloat res" where
  "normal_equation alpha rho x y =
     (case fdp_fun alpha rho x y of Inl e \<Rightarrow> Inl e | Inr v \<Rightarrow> Inr (fabs v))"

definition fdp_args :: "real \<Rightarrow> ms_args" where
  "fdp_args x =
     \<lparr>ms_method = Some ''bounded'', ms_bracket = None,
      ms_bounds = Some (0, Fin (1 - x)), ms_xatol = Some (1 / 10 ^ 9 * (1 - x))\<rparr>"

text \<open>The closure \<open>fdp(x)\<close> returned by \<open>single_rdp_to_fdp(alpha, rho)\<close>.\<close>

definition single_fdp :: "minimize_scalar \<Rightarrow> real \<Rightarrow> pyfloat \<Rightarrow> real \<Rightarrow> pyfloat res" where
  "single_fdp ms alpha rho x =
     (if \<not> (0 \<le> x \<and> x \<le> 1) then Inl AssertionError
      else if x = 0 then Inr (Fin 1)
      else if x = 1 then Inr (Fin 0)
      else
        (case ms (normal_equation alpha rho x) (fdp_args x) of
           Inl e \<Rightarrow> Inl e
         | Inr results \<Rightarrow>
             if opt_success results then Inr (Fin (opt_x results)) else Inr (Fin 0)))"

definition single_rdp_to_fdp ::
  "minimize_scalar \<Rightarrow> real \<Rightarrow> pyfloat \<Rightarrow> (real \<Rightarrow> pyfloat res) res" where
  "single_rdp_to_fdp ms alpha rho =
     (if \<not> alpha \<ge> 1 / 2 then Inl AssertionError else Inr (single_fdp ms alpha rho))"

subsection \<open>\<open>puredp_to_approxdp\<close>\<close>

definition puredp_to_approxdp :: "real \<Rightarrow> real \<Rightarrow> string list \<times> pyfloat res" where
  "puredp_to_approxdp eps delta =
     (let (s, mag) = stable_log_diff_exp (Fin eps) (np_log_r delta) in ([], Inr mag))"

section \<open>Mechanisms\<close>

text \<open>
  A \<open>params\<close> dictionary is a Python object that several mechanisms may share, so the
  dictionaries live in a store and a mechanism holds the address of its dictionary. A
  dictionary is an association list in insertion order.
\<close>

type_synonym dict = "(string \<times> pyfloat) list"
type_synonym store = "dict list"

definition deref :: "store \<Rightarrow> nat \<Rightarrow> dict" where
  "deref st a = (if a < length st then st ! a else [])"

definition alloc :: "store \<Rightarrow> dict \<Rightarrow> store \<times> nat" where
  "alloc st d = (st @ [d], length st)"

definition dict_update :: "dict \<Rightarrow> dict \<Rightarrow> dict" where
  "dict_update d kvs = foldl (\<lambda>acc (k, v). AList.update k v acc) d kvs"

type_synonym rdp_curve = "pyfloat \<Rightarrow> pyfloat res"
type_synonym approxdp_curve = "real \<Rightarrow> string list \<times> pyfloat res"
type_synonym phi_function = "real \<Rightarrow> complex res"
type_synonym cdf_function = "real \<Rightarrow> pyfloat res"

text \<open>
  Modelled from the spec: the class \<open>Mechanism\<close> of \<open>autodp.autodp_core\<close> is not among
  the source files. Section 3 of the specification lists its data: zero or more privacy
  curves, \<open>name\<close>, \<open>params\<close>, \<open>delta0\<close>, the \<open>exactPhi\<close> flag, the upper/lower flag and
  the neighbouring-relation flag; the source files read and write the attributes
  \<open>eps_pureDP\<close>, the four phi-functions and \<open>cdf\<close> as well. A representation that may
  be absent is an \<open>option\<close>.
\<close>

record Mechanism =
  name :: string
  params :: nat
  rdp_rep :: "rdp_curve option"
  approxdp_rep :: "approxdp_curve option"
  eps_pureDP :: pyfloat
  delta0 :: pyfloat
  replace_one :: bool
  exactPhi :: bool
  upperPhi :: bool
  phi_p_lower :: "phi_function option"
  phi_p_upper :: "phi_function option"
  phi_q_lower :: "phi_function option"
  phi_q_upper :: "phi_function option"
  cdf :: "(cdf_function \<times> cdf_function) option"

text \<open>
  Modelled from the spec: the query accessors (Section 4.4) look the stored
  representation up and report infeasibility, \<open>+inf\<close> (Section 7), when there is none.
  A phi-function that was never assigned is a missing attribute.
\<close>

definition RenyiDP :: "Mechanism \<Rightarrow> rdp_curve" where
  "RenyiDP m alpha = (case rdp_rep m of None \<Rightarrow> Inr PInf | Some f \<Rightarrow> f alpha)"

definition approxDP :: "Mechanism \<Rightarrow> approxdp_curve" where
  "approxDP m delta = (case approxdp_rep m of None \<Rightarrow> ([], Inr PInf) | Some f \<Rightarrow> f delta)"

definition call_phi :: "phi_function option \<Rightarrow> phi_function" where
  "call_phi p x = (case p of None \<Rightarrow> Inl AttributeError | Some f \<Rightarrow> f x)"

text \<open>
  Modelled from the spec: \<open>Mechanism()\<close> builds a mechanism with no representation, a
  fresh empty \<open>params\<close> dictionary, no pure-DP guarantee (\<open>+inf\<close>), \<open>delta0 = 0\<close>, the
  add/remove relation, and an exact phi-function flag. Every constructor and transformer
  below overwrites the name.
\<close>

definition Mechanism_init :: "store \<Rightarrow> store \<times> Mechanism" where
  "Mechanism_init st =
     (let (st', a) = alloc st []
      in (st', \<lparr>name = [], params = a, rdp_rep = None, approxdp_rep = None,
                eps_pureDP = PInf, delta0 = Fin 0, replace_one = False, exactPhi = True,
                upperPhi = False, phi_p_lower = None, phi_p_upper = None,
                phi_q_lower = None, phi_q_upper = None, cdf = None\<rparr>))"

text \<open>
  What the model takes from outside the source files: scipy's optimiser, Python's \<open>str\<close>
  on a number, the quadrature \<open>cdf_bank.cdf_approx\<close>, the accountant
  \<open>rdp_acct.anaRDPacct\<close> (its four composition calls followed by
  \<open>build_zeroth_oracle\<close> and \<open>evalRDP\<close>, selected by the two flags), and the two
  numerical routes to an approx-DP curve that no property below looks into: the
  fDP-based one from an RDP curve and the one from a CDF pair.
\<close>

record env =
  scipy_minimize_scalar :: minimize_scalar
  py_str :: "real \<Rightarrow> string"
  cdf_approx :: "phi_function \<Rightarrow> real \<Rightarrow> pyfloat res"
  anaRDPacct :: "bool \<Rightarrow> bool \<Rightarrow> rdp_curve \<Rightarrow> real \<Rightarrow> rdp_curve res"
  fdp_based_route :: "rdp_curve \<Rightarrow> approxdp_curve"
  cdf_route :: "cdf_function \<Rightarrow> cdf_function \<Rightarrow> approxdp_curve"

datatype update = RDP rdp_curve | pureDP real | cdf_not_sym cdf_function cdf_function

text \<open>
  Modelled from the spec: \<open>propagate_updates(value, kind, flags)\<close> of
  \<open>autodp.autodp_core\<close> is not among the source files. Section 4.4: it stores the value
  under its kind and then, for each representation not already present, derives it by
  the converter route that the kind and the flags select; a representation that is
  present is not overwritten.
\<close>

definition fill_approxdp :: "approxdp_curve \<Rightarrow> Mechanism \<Rightarrow> Mechanism" where
  "fill_approxdp f m =
     (case approxdp_rep m of None \<Rightarrow> m\<lparr>approxdp_rep := Some f\<rparr> | Some g \<Rightarrow> m)"

fun propagate_updates :: "env \<Rightarrow> Mechanism \<Rightarrow> update \<Rightarrow> bool \<Rightarrow> bool \<Rightarrow> Mechanism res" where
  "propagate_updates E m (RDP f) BBGHS_conversion fDP_based_conversion =
     Inr (fill_approxdp
            (if fDP_based_conversion then fdp_based_route E f
             else rdp_to_approxdp (scipy_minimize_scalar E) f PInf BBGHS_conversion)
            (m\<lparr>rdp_rep := Some f\<rparr>))"
| "propagate_updates E m (pureDP eps) BBGHS_conversion fDP_based_conversion =
     (let m1 = m\<lparr>eps_pureDP := Fin eps\<rparr>
      in case rdp_rep m1 of
           Some g \<Rightarrow> Inr (fill_approxdp (puredp_to_approxdp eps) m1)
         | None \<Rightarrow>
             (case puredp_to_rdp eps of
                Inl e \<Rightarrow> Inl e
              | Inr f \<Rightarrow> Inr (fill_approxdp (puredp_to_approxdp eps) (m1\<lparr>rdp_rep := Some f\<rparr>))))"
| "propagate_updates E m (cdf_not_sym cdf_p cdf_q) BBGHS_conversion fDP_based_conversion =
     Inr (fill_approxdp (cdf_route E cdf_p cdf_q) (m\<lparr>cdf := Some (cdf_p, cdf_q)\<rparr>))"

subsection \<open>\<open>PureDP_Mechanism\<close>\<close>

definition PureDP_Mechanism :: "env \<Rightarrow> store \<Rightarrow> real \<Rightarrow> string \<Rightarrow> (store \<times> Mechanism) res" where
  "PureDP_Mechanism E st eps nm =
     (let (st1, m0) = Mechanism_init st;
          (st2, a) = alloc st1 [(''eps'', Fin eps)];
          m1 = m0\<lparr>name := nm, params := a\<rparr>
      in case propagate_updates E m1 (pureDP eps) True False of
           Inl e \<Rightarrow> Inl e
         | Inr m2 \<Rightarrow> Inr (st2, m2))"

section \<open>Transformers\<close>

subsection \<open>\<open>Composition\<close>\<close>

fun sequence_res :: "'a res list \<Rightarrow> 'a list res" where
  "sequence_res [] = Inr []"
| "sequence_res (r # rs) =
     (case r of
        Inl e \<Rightarrow> Inl e
      | Inr v \<Rightarrow> (case sequence_res rs of Inl e \<Rightarrow> Inl e | Inr vs \<Rightarrow> Inr (v # vs)))"

text \<open>Python's \<open>sum\<close> adds from the left, starting at 0; \<open>max\<close> of an empty list raises.\<close>

definition py_sum :: "pyfloat list \<Rightarrow> pyfloat" where
  "py_sum xs = foldl fadd (Fin 0) xs"

fun py_max :: "pyfloat list \<Rightarrow> pyfloat res" where
  "py_max [] = Inl ValueError"
| "py_max (x # xs) = Inr (foldl (\<lambda>m v. if flt m v then v else m) x xs)"

fun join :: "string \<Rightarrow> string list \<Rightarrow> string" where
  "join sep [] = []"
| "join sep [x] = x"
| "join sep (x # y # ys) = x @ sep @ join sep (y # ys)"

definition update_name :: "env \<Rightarrow> Mechanism list \<Rightarrow> real list \<Rightarrow> string" where
  "update_name E mechanism_list coeff_list =
     ''Compose:{''
     @ join '', '' (map (\<lambda>(mech, c). name mech @ '': '' @ py_str E c)
                        (zip mechanism_list coeff_list))
     @ ''}''"

definition update_params :: "store \<Rightarrow> Mechanism list \<Rightarrow> dict" where
  "update_params st mechanism_list =
     foldl (\<lambda>ps mech.
              dict_update ps (map (\<lambda>(k, v). (name mech @ '':'' @ k, v)) (deref st (params mech))))
           [] mechanism_list"

text \<open>The closure \<open>newrdp(x)\<close> of \<open>Composition.compose\<close>.\<close>

definition newrdp :: "Mechanism list \<Rightarrow> real list \<Rightarrow> rdp_curve" where
  "newrdp mechanism_list coeff_list x =
     (case sequence_res
             (map (\<lambda>(mech, c).
                     case RenyiDP mech x of Inl e \<Rightarrow> Inl e | Inr v \<Rightarrow> Inr (fmul (Fin c) v))
                  (zip mechanism_list coeff_list)) of
        Inl e \<Rightarrow> Inl e
      | Inr vs \<Rightarrow> Inr (py_sum vs))"

definition Composition_compose ::
  "env \<Rightarrow> store \<Rightarrow> Mechanism list \<Rightarrow> real list \<Rightarrow> bool \<Rightarrow> bool \<Rightarrow> bool \<Rightarrow> (store \<times> Mechanism) res" where
  "Composition_compose E st mechanism_list coeff_list RDP_compose_only BBGHS_conversion
       fDP_based_conversion =
     (let (st1, newmech) = Mechanism_init st
      in case propagate_updates E newmech (RDP (newrdp mechanism_list coeff_list))
                BBGHS_conversion fDP_based_conversion of
           Inl e \<Rightarrow> Inl e
         | Inr m1 \<Rightarrow>
             (let m2 = m1\<lparr>eps_pureDP :=
                         py_sum (map (\<lambda>(mech, c). fmul (Fin c) (eps_pureDP mech))
                                     (zip mechanism_list coeff_list))\<rparr>
              in case py_max (map (\<lambda>(mech, c). delta0 mech) (zip mechanism_list coeff_list)) of
                   Inl e \<Rightarrow> Inl e
                 | Inr d \<Rightarrow>
                     (let m3 = m2\<lparr>delta0 := d,
                                  name := update_name E mechanism_list coeff_list\<rparr>;
                          (st2, a) = alloc st1 (update_params st1 mechanism_list)
                      in Inr (st2, m3\<lparr>params := a\<rparr>))))"

subsection \<open>\<open>ComposeAFA\<close>\<close>

text \<open>
  The four closures \<open>new_phi_p_lower\<close>, \<open>new_phi_p_upper\<close>, \<open>new_phi_q_lower\<close> and
  \<open>new_phi_q_upper\<close> differ in the attribute they read only; the values of a
  phi-function are complex numbers.
\<close>

definition new_phi ::
  "(Mechanism \<Rightarrow> phi_function option) \<Rightarrow> Mechanism list \<Rightarrow> real list \<Rightarrow> phi_function" where
  "new_phi attr mechanism_list coeff_list x =
     (case sequence_res
             (map (\<lambda>(mech, c).
                     case call_phi (attr mech) x of
                       Inl e \<Rightarrow> Inl e
                     | Inr z \<Rightarrow> Inr (complex_of_real c * z))
                  (zip mechanism_list coeff_list)) of
        Inl e \<Rightarrow> Inl e
      | Inr zs \<Rightarrow> Inr (foldl (+) 0 zs))"

definition new_phi_p_lower :: "Mechanism list \<Rightarrow> real list \<Rightarrow> phi_function" where
  "new_phi_p_lower = new_phi phi_p_lower"

definition new_phi_p_upper :: "Mechanism list \<Rightarrow> real list \<Rightarrow> phi_function" where
  "new_phi_p_upper = new_phi phi_p_upper"

definition new_phi_q_lower :: "Mechanism list \<Rightarrow> real list \<Rightarrow> phi_function" where
  "new_phi_q_lower = new_phi phi_q_lower"

definition new_phi_q_upper :: "Mechanism list \<Rightarrow> real list \<Rightarrow> phi_function" where
  "new_phi_q_upper = new_phi phi_q_upper"

text \<open>
  The loop over \<open>mechanism_list\<close> that sets \<open>newmech.exactPhi\<close>, \<open>upper_bound\<close> and
  \<open>lower_bound\<close>; the state is the triple of the three flags.
\<close>

fun phi_flags :: "Mechanism list \<Rightarrow> bool \<times> bool \<times> bool \<Rightarrow> bool \<times> bool \<times> bool" where
  "phi_flags [] s = s"
| "phi_flags (mech # ms) (exact, upper_bound, lower_bound) =
     (if exactPhi mech = False then
        (if upperPhi mech = True then phi_flags ms (False, True, lower_bound)
         else phi_flags ms (False, upper_bound, True))
      else phi_flags ms (exact, upper_bound, lower_bound))"

definition ComposeAFA_compose ::
  "env \<Rightarrow> store \<Rightarrow> Mechanism list \<Rightarrow> real list \<Rightarrow> (store \<times> Mechanism) res" where
  "ComposeAFA_compose E st mechanism_list coeff_list =
     (let (st1, newmech) = Mechanism_init st;
          (exact, upper_bound, lower_bound) = phi_flags mechanism_list (True, False, False);
          m0 = newmech\<lparr>exactPhi := exact\<rparr>
      in if \<not> (\<not> (lower_bound = True \<and> upper_bound = True)) then Inl AssertionError
         else
           (let (m1, cdf_p, cdf_q) =
                  (if exactPhi m0 then
                     (m0\<lparr>phi_p_lower := Some (new_phi_p_lower mechanism_list coeff_list),
                         phi_p_upper := Some (new_phi_p_upper mechanism_list coeff_list),
                         phi_q_lower := Some (new_phi_q_lower mechanism_list coeff_list),
                         phi_q_upper := Some (new_phi_q_upper mechanism_list coeff_list)\<rparr>,
                      cdf_approx E (new_phi_p_upper mechanism_list coeff_list),
                      cdf_approx E (new_phi_q_upper mechanism_list coeff_list))
                   else if lower_bound then
                     (m0\<lparr>phi_p_lower := Some (new_phi_p_lower mechanism_list coeff_list),
                         phi_q_lower := Some (new_phi_q_lower mechanism_list coeff_list)\<rparr>,
                      cdf_approx E (new_phi_p_lower mechanism_list coeff_list),
                      cdf_approx E (new_phi_q_lower mechanism_list coeff_list))
                   else
                     (m0\<lparr>phi_p_upper := Some (new_phi_p_upper mechanism_list coeff_list),
                         phi_q_upper := Some (new_phi_q_upper mechanism_list coeff_list)\<rparr>,
                      cdf_approx E (new_phi_p_upper mechanism_list coeff_list),
                      cdf_approx E (new_phi_p_upper mechanism_list coeff_list)));
                m2 = m1\<lparr>cdf := Some (cdf_p, cdf_q)\<rparr>
            in case propagate_updates E m2 (cdf_not_sym cdf_p cdf_q) True False of
                 Inl e \<Rightarrow> Inl e
               | Inr m3 \<Rightarrow>
                   (let m4 = m3\<lparr>name := update_name E mechanism_list coeff_list\<rparr>;
                        (st2, a) = alloc st1 (update_params st1 mechanism_list)
                    in Inr (st2, m4\<lparr>params := a\<rparr>))))"

text \<open>
  What the flag loop tests: an inexact mechanism whose \<open>upperPhi\<close> flag is not true sets
  \<open>lower_bound\<close>, one whose flag is true sets \<open>upper_bound\<close>.
\<close>

definition flagged_lower :: "Mechanism \<Rightarrow> bool" where
  "flagged_lower mech = (\<not> exactPhi mech \<and> \<not> upperPhi mech)"

definition flagged_upper :: "Mechanism \<Rightarrow> bool" where
  "flagged_upper mech = (\<not> exactPhi mech \<and> upperPhi mech)"

text \<open>
  What a mechanism carries: it carries only a lower-bound phi-function when it is inexact,
  has \<open>phi_p_lower\<close> and \<open>phi_q_lower\<close> and has neither \<open>phi_p_upper\<close> nor
  \<open>phi_q_upper\<close>; and the other way round for an upper-bound phi-function.
\<close>

definition carries_only_lower :: "Mechanism \<Rightarrow> bool" where
  "carries_only_lower mech =
     (\<not> exactPhi mech \<and> phi_p_lower mech \<noteq> None \<and> phi_q_lower mech \<noteq> None
      \<and> phi_p_upper mech = None \<and> phi_q_upper mech = None)"

definition carries_only_upper :: "Mechanism \<Rightarrow> bool" where
  "carries_only_upper mech =
     (\<not> exactPhi mech \<and> phi_p_upper mech \<noteq> None \<and> phi_q_upper mech \<noteq> None
      \<and> phi_p_lower mech = None \<and> phi_q_lower mech = None)"

subsection \<open>\<open>SubSampleGaussian_phi\<close>\<close>

text \<open>
  The constructor of \<open>mechanism_zoo\<close> that builds the inexact mechanisms. The two
  functions of \<open>phi_bank\<close> (not among the source files) are parameters; their arguments
  are the \<open>params\<close> dictionary, the point and the flags \<open>phi_min\<close> and \<open>phi_max\<close>.
  The closures read \<open>self.params\<close> when they are called; the model passes the dictionary
  as the constructor built it. The constructor assigns \<open>exactPhi\<close> and the
  phi-functions of one direction, and never assigns \<open>upperPhi\<close>. The argument \<open>coeff\<close>
  is not used by the source either.
\<close>

record phi_bank =
  phi_subsample_gaussian_p :: "dict \<Rightarrow> real \<Rightarrow> bool \<Rightarrow> bool \<Rightarrow> complex res"
  phi_subsample_gaussian_q :: "dict \<Rightarrow> real \<Rightarrow> bool \<Rightarrow> bool \<Rightarrow> complex res"

definition SubSampleGaussian_phi ::
  "env \<Rightarrow> phi_bank \<Rightarrow> store \<Rightarrow> pyfloat \<Rightarrow> pyfloat \<Rightarrow> real \<Rightarrow> string \<Rightarrow> bool \<Rightarrow> bool
     \<Rightarrow> (store \<times> Mechanism) res" where
  "SubSampleGaussian_phi E B st sigma gamma coeff nm lower_bound upper_bound =
     (let (st1, m0) = Mechanism_init st;
          d = [(''sigma'', sigma), (''gamma'', gamma)];
          (st2, a) = alloc st1 d;
          m1 = m0\<lparr>name := nm, params := a, delta0 := Fin 0\<rparr>;
          (m2, phi_p, phi_q) =
            (if lower_bound then
               (let phi_p = (\<lambda>x. phi_subsample_gaussian_p B d x True False);
                    phi_q = (\<lambda>x. phi_subsample_gaussian_q B d x True False)
                in (m1\<lparr>exactPhi := False, phi_p_lower := Some phi_p,
                        phi_q_lower := Some phi_q\<rparr>, phi_p, phi_q))
             else if upper_bound then
               (let phi_p = (\<lambda>x. phi_subsample_gaussian_p B d x False True);
                    phi_q = (\<lambda>x. phi_subsample_gaussian_q B d x False True)
                in (m1\<lparr>exactPhi := False, phi_p_upper := Some phi_p,
                        phi_q_upper := Some phi_q\<rparr>, phi_p, phi_q))
             else
               (let phi_p = (\<lambda>x. phi_subsample_gaussian_p B d x False False);
                    phi_q = (\<lambda>x. phi_subsample_gaussian_q B d x False False)
                in (m1\<lparr>exactPhi := False, phi_p_lower := Some phi_p,
                        phi_p_upper := Some phi_p, phi_q_lower := Some phi_q\<rparr>,
                    phi_p, phi_q)));
          cdf_p = cdf_approx E phi_p;
          cdf_q = cdf_approx E phi_q;
          m3 = m2\<lparr>cdf := Some (cdf_p, cdf_q)\<rparr>
      in case propagate_updates E m3 (cdf_not_sym cdf_p cdf_q) True False of
           Inl e \<Rightarrow> Inl e
         | Inr m4 \<Rightarrow> Inr (st2, m4))"

subsection \<open>\<open>AmplificationBySampling\<close>\<close>

text \<open>Python's \<open>str\<close> on a non-negative integer: its decimal digits.\<close>

definition digit_char :: "nat \<Rightarrow> char" where
  "digit_char d = char_of (48 + d)"

fun str_nat :: "nat \<Rightarrow> string" where
  "str_nat n = (if n < 10 then [digit_char n] else str_nat (n div 10) @ [digit_char (n mod 10)])"

declare str_nat.simps [simp del]

text \<open>
  The transformer object is its \<open>PoissonSampling\<close> flag, which fixes its name. In the
  loop that looks for an unused key, \<open>newname\<close> and \<open>key\<close> are functions of the counter
  \<open>num\<close>: \<open>newname = self.name\<close> and \<open>key = self.name + '_' + str(prob)\<close> at \<open>num = 0\<close>,
  \<open>newname = self.name + str(num)\<close> and \<open>key = newname + '_' + str(prob)\<close> after that.
\<close>

definition sampling_name :: "bool \<Rightarrow> string" where
  "sampling_name PoissonSampling = (if PoissonSampling then ''PoissonSample'' else ''Subsample'')"

definition newname_of :: "string \<Rightarrow> nat \<Rightarrow> string" where
  "newname_of nm num = (if num = 0 then nm else nm @ str_nat num)"

definition key_of :: "string \<Rightarrow> string \<Rightarrow> nat \<Rightarrow> string" where
  "key_of nm sprob num = newname_of nm num @ ''_'' @ sprob"

text \<open>
  The loop \<open>while key in mechanism.params\<close>; it returns the final value of \<open>num\<close>.
  It terminates because the keys it tries are pairwise different and the dictionary is
  finite.
\<close>

function newname_loop :: "string \<Rightarrow> string \<Rightarrow> string list \<Rightarrow> nat \<Rightarrow> nat" where
  "newname_loop nm sprob keys num =
     (if key_of nm sprob num \<in> set keys then newname_loop nm sprob keys (Suc num) else num)"
  by pat_completeness auto
termination
proof (relation "measure (\<lambda>(nm, sprob, keys, num). card {n. num \<le> n \<and> key_of nm sprob n \<in> set keys})")
  show "wf (measure (\<lambda>(nm, sprob, keys, num). card {n. num \<le> n \<and> key_of nm sprob n \<in> set keys}))"
    by simp
next
  fix nm sprob :: string and keys :: "string list" and num :: nat
  assume k: "key_of nm sprob num \<in> set keys"
  let ?val = "\<lambda>s. foldl (\<lambda>a c. 10 * a + (of_char c - 48)) (0 :: nat) s"
  have dig: "of_char (digit_char d) = 48 + d" if "d < 10" for d :: nat
    using that by (simp add: digit_char_def)
  have val: "?val (str_nat n) = n" for n
  proof (induction n rule: str_nat.induct)
    case (1 n)
    show ?case
    proof (cases "n < 10")
      case True
      then show ?thesis by (simp add: str_nat.simps [of n] dig)
    next
      case False
      with 1 have "?val (str_nat (n div 10)) = n div 10" by simp
      with False show ?thesis by (simp add: str_nat.simps [of n] dig)
    qed
  qed
  have inj_str: "n = m" if "str_nat n = str_nat m" for n m
  proof -
    from that have "?val (str_nat n) = ?val (str_nat m)" by (rule arg_cong)
    then show ?thesis by (simp only: val)
  qed
  have ne: "str_nat n \<noteq> []" for n
    by (simp add: str_nat.simps [of n])
  have inj_key: "inj (key_of nm sprob)"
  proof (rule injI)
    fix a b assume e: "key_of nm sprob a = key_of nm sprob b"
    show "a = b"
    proof (cases "a = 0"; cases "b = 0")
      assume "a = 0" "b \<noteq> 0"
      with e ne [of b] show ?thesis by (simp add: key_of_def newname_of_def)
    next
      assume "a \<noteq> 0" "b = 0"
      with e ne [of a] show ?thesis by (simp add: key_of_def newname_of_def)
    next
      assume "a \<noteq> 0" "b \<noteq> 0"
      with e show ?thesis by (simp add: key_of_def newname_of_def inj_str)
    qed simp
  qed
  have fin: "finite {n. key_of nm sprob n \<in> set keys}"
    using finite_vimageI [OF finite_set inj_key, of keys] by (simp add: vimage_def)
  have "num \<in> {n. num \<le> n \<and> key_of nm sprob n \<in> set keys}"
       "num \<notin> {n. Suc num \<le> n \<and> key_of nm sprob n \<in> set keys}"
       "{n. Suc num \<le> n \<and> key_of nm sprob n \<in> set keys}
          \<subseteq> {n. num \<le> n \<and> key_of nm sprob n \<in> set keys}"
    using k by auto
  then have "{n. Suc num \<le> n \<and> key_of nm sprob n \<in> set keys}
          \<subset> {n. num \<le> n \<and> key_of nm sprob n \<in> set keys}"
    by blast
  moreover have "finite {n. num \<le> n \<and> key_of nm sprob n \<in> set keys}"
    using fin by simp
  ultimately have "card {n. Suc num \<le> n \<and> key_of nm sprob n \<in> set keys}
          < card {n. num \<le> n \<and> key_of nm sprob n \<in> set keys}"
    by (rule psubset_card_mono [rotated])
  then show "((nm, sprob, keys, Suc num), (nm, sprob, keys, num))
       \<in> measure (\<lambda>(nm, sprob, keys, num). card {n. num \<le> n \<and> key_of nm sprob n \<in> set keys})"
    by simp
qed

declare newname_loop.simps [simp del]

text \<open>The closure \<open>new_approxDP\<close>, chosen by the test \<open>prob == 0\<close>.\<close>

definition new_approxDP :: "Mechanism \<Rightarrow> real \<Rightarrow> approxdp_curve" where
  "new_approxDP mechanism prob delta =
     (if prob = 0 then ([], Inr (Fin 0))
      else
        (case approxDP mechanism (delta / prob) of
           (out, Inl e) \<Rightarrow> (out, Inl e)
         | (out, Inr v) \<Rightarrow>
             (out, Inr (np_log (fadd (Fin 1) (fmul (Fin prob) (fsub (np_exp v) (Fin 1))))))))"

definition amplify ::
  "env \<Rightarrow> bool \<Rightarrow> store \<Rightarrow> Mechanism \<Rightarrow> real \<Rightarrow> bool \<Rightarrow> (store \<times> Mechanism) res" where
  "amplify E PoissonSampling st mechanism prob improved_bound_flag =
     (let (st1, newmech) = Mechanism_init st
      in case (if PoissonSampling then
                 (if \<not> (\<not> replace_one mechanism) then Inl AssertionError
                  else Inr (newmech\<lparr>replace_one := False\<rparr>))
               else
                 (if \<not> replace_one mechanism then Inl AssertionError
                  else Inr (newmech\<lparr>replace_one := True\<rparr>))) of
           Inl e \<Rightarrow> Inl e
         | Inr m1 \<Rightarrow>
             (let m2 = m1\<lparr>approxdp_rep := Some (new_approxDP mechanism prob)\<rparr>
              in case anaRDPacct E PoissonSampling improved_bound_flag (RenyiDP mechanism) prob of
                   Inl e \<Rightarrow> Inl e
                 | Inr new_rdp \<Rightarrow>
                     (case propagate_updates E m2 (RDP new_rdp) True False of
                        Inl e \<Rightarrow> Inl e
                      | Inr m3 \<Rightarrow>
                          (let nm = sampling_name PoissonSampling;
                               num = newname_loop nm (py_str E prob)
                                       (map fst (deref st1 (params mechanism))) 0;
                               newname = newname_of nm num;
                               m4 = m3\<lparr>name := newname @ '':'' @ name mechanism,
                                        params := params mechanism\<rparr>;
                               st2 = st1[params m4 :=
                                         AList.update newname (Fin prob) (deref st1 (params m4))]
                           in Inr (st2, m4)))))"

section \<open>Example inputs\<close>

text \<open>
  The properties below hold for every environment. Where one of them is applied to a
  concrete input, the environment is this one, and the mechanism is a pure-DP mechanism
  given by its epsilon and the curves of \<open>puredp_to_rdp\<close> and \<open>puredp_to_approxdp\<close>.
\<close>

definition stub_env :: env where
  "stub_env =
     \<lparr>scipy_minimize_scalar = (\<lambda>f args. Inr \<lparr>opt_success = False, opt_x = 0, opt_fun = PInf\<rparr>),
      py_str = (\<lambda>c. ''c''),
      cdf_approx = (\<lambda>phi x. Inr (Fin 0)),
      anaRDPacct = (\<lambda>poisson improved rdp prob. Inr rdp),
      fdp_based_route = (\<lambda>rdp delta. ([], Inr PInf)),
      cdf_route = (\<lambda>cdf_p cdf_q delta. ([], Inr PInf))\<rparr>"

definition pure_mech :: "real \<Rightarrow> Mechanism" where
  "pure_mech eps = (snd (Mechanism_init []))\<lparr>eps_pureDP := Fin eps,
      rdp_rep := Some (puredp_rdp eps), approxdp_rep := Some (puredp_to_approxdp eps)\<rparr>"




section \<open>Properties of the converters\<close>

lemma puredp_rdp_inf: "puredp_rdp eps PInf = Inr (Fin eps)"
  by (simp add: puredp_rdp_def isinf_def)

lemma rdp_to_approxdp_zero: "rdp_to_approxdp ms rdp alpha_max b 0 = ([], rdp PInf)"
  by (simp add: rdp_to_approxdp_def)

text \<open>
  C3. For every \<open>eps \<ge> 0\<close> the converter \<open>puredp_to_rdp(eps)\<close> returns an RDP curve, and
  \<open>rdp_to_approxdp\<close> of that curve, queried at \<open>delta = 0\<close>, returns exactly \<open>eps\<close>
  (and prints nothing), whatever the optimiser, the order ceiling and the conversion flag.
\<close>

theorem puredp_rdp_approxdp_roundtrip:
  assumes "0 \<le> eps"
  shows "\<exists>rdp. puredp_to_rdp eps = Inr rdp
           \<and> rdp_to_approxdp ms rdp alpha_max b 0 = ([], Inr (Fin eps))"
  using assms by (simp add: puredp_to_rdp_def rdp_to_approxdp_zero puredp_rdp_inf)

theorem puredp_rdp_approxdp_roundtrip_witness:
  "(0::real) \<le> 3 \<and> (\<exists>rdp. puredp_to_rdp 3 = Inr rdp
      \<and> rdp_to_approxdp (\<lambda>f args. Inl ValueError) rdp PInf True 0 = ([], Inr (Fin 3)))"
  using puredp_rdp_approxdp_roundtrip [of 3 "\<lambda>f args. Inl ValueError" PInf True] by simp

text \<open>
  C4. The evaluator returned by \<open>rdp_to_approxdp(rdp)\<close> returns \<open>rdp(inf)\<close> at
  \<open>delta = 0\<close> (the optimiser is not called); at any other \<open>delta\<close>, when the optimiser
  returns a result whose \<open>success\<close> flag is false, the evaluator returns \<open>+inf\<close>: a
  value, not an exception.
\<close>

theorem rdp_to_approxdp_zero_and_failure:
  "rdp_to_approxdp ms rdp alpha_max b 0 = ([], rdp PInf)
   \<and> (delta \<noteq> 0 \<longrightarrow>
        ms (approxdp_fun rdp b delta) (approxdp_args alpha_max) = Inr results \<longrightarrow>
        \<not> opt_success results \<longrightarrow>
        snd (rdp_to_approxdp ms rdp alpha_max b delta) = Inr PInf)"
  by (simp add: rdp_to_approxdp_zero) (simp add: rdp_to_approxdp_def)

theorem rdp_to_approxdp_zero_and_failure_witness:
  "rdp_to_approxdp (\<lambda>f args. Inr \<lparr>opt_success = False, opt_x = 1, opt_fun = NaN\<rparr>)
       (puredp_rdp 1) PInf True 0 = ([], Inr (Fin 1))
   \<and> (1 / 2 :: real) \<noteq> 0
   \<and> \<not> opt_success \<lparr>opt_success = False, opt_x = 1, opt_fun = NaN\<rparr>
   \<and> snd (rdp_to_approxdp (\<lambda>f args. Inr \<lparr>opt_success = False, opt_x = 1, opt_fun = NaN\<rparr>)
       (puredp_rdp 1) PInf True (1 / 2)) = Inr PInf"
  using rdp_to_approxdp_zero_and_failure
    [of "\<lambda>f args. Inr \<lparr>opt_success = False, opt_x = 1, opt_fun = NaN\<rparr>"
        "puredp_rdp 1" PInf True "1 / 2" "\<lparr>opt_success = False, opt_x = 1, opt_fun = NaN\<rparr>"]
  by (simp add: puredp_rdp_inf)

text \<open>
  C9. \<open>eps = 0\<close> passes the assertion of \<open>puredp_to_rdp\<close>, but the evaluator it returns
  raises ZeroDivisionError at \<open>alpha = 1\<close> and at every \<open>alpha\<close> with \<open>0 < alpha < 1\<close>,
  because both branches divide by \<open>math.sinh(0) = 0\<close>. So for an admissible \<open>eps\<close> the
  evaluator returns a value at an order \<open>0 < alpha \<le> 1\<close> only if \<open>eps > 0\<close>.
\<close>

theorem puredp_rdp_zero_eps_raises:
  "puredp_to_rdp 0 = Inr (puredp_rdp 0)
   \<and> puredp_rdp 0 (Fin 1) = Inl ZeroDivisionError
   \<and> (0 < a \<and> a < 1 \<longrightarrow> puredp_rdp 0 (Fin a) = Inl ZeroDivisionError)
   \<and> (0 \<le> eps \<and> 0 < a \<and> a \<le> 1 \<and> puredp_rdp eps (Fin a) = Inr v \<longrightarrow> 0 < eps)"
proof -
  have z: "rdp_limit 0 = Inl ZeroDivisionError"
    by (simp add: rdp_limit_def py_truediv_def)
  have 1: "puredp_to_rdp 0 = Inr (puredp_rdp 0)"
    by (simp add: puredp_to_rdp_def)
  have 2: "puredp_rdp 0 (Fin 1) = Inl ZeroDivisionError"
    by (simp add: puredp_rdp_def z)
  have 3: "puredp_rdp 0 (Fin a) = Inl ZeroDivisionError" if "0 < a \<and> a < 1" for a
    using that by (simp add: puredp_rdp_def z isinf_def flt_def)
  have 4: "0 < eps" if h: "0 \<le> eps \<and> 0 < a \<and> a \<le> 1 \<and> puredp_rdp eps (Fin a) = Inr v"
  proof (rule ccontr)
    assume "\<not> 0 < eps"
    with h have e: "eps = 0" by simp
    show False
    proof (cases "a = 1")
      case True
      with h e 2 show False by simp
    next
      case False
      with h have "0 < a \<and> a < 1" by simp
      from 3 [OF this] h e show False by simp
    qed
  qed
  from 1 2 3 4 show ?thesis by blast
qed

theorem puredp_rdp_zero_eps_raises_witness:
  "puredp_to_rdp 0 = Inr (puredp_rdp 0)
   \<and> puredp_rdp 0 (Fin 1) = Inl ZeroDivisionError
   \<and> (0 < (1 / 2 :: real) \<and> (1 / 2 :: real) < 1)
   \<and> puredp_rdp 0 (Fin (1 / 2)) = Inl ZeroDivisionError
   \<and> ((0 :: real) \<le> 2 \<and> 0 < (1 / 2 :: real) \<and> (1 / 2 :: real) \<le> 1
        \<and> puredp_rdp 2 (Fin (1 / 2))
             = Inr (py_min (Fin (1 / 2 * 2 * 2 / 2)) (Fin (2 * (cosh 2 - 1) / sinh 2))))
   \<and> (0 :: real) < 2"
proof -
  have v: "puredp_rdp 2 (Fin (1 / 2))
             = Inr (py_min (Fin (1 / 2 * 2 * 2 / 2)) (Fin (2 * (cosh 2 - 1) / sinh 2)))"
    by (simp add: puredp_rdp_def rdp_limit_def py_truediv_def isinf_def flt_def)
  from puredp_rdp_zero_eps_raises
         [of "1 / 2" 2 "py_min (Fin (1 / 2 * 2 * 2 / 2)) (Fin (2 * (cosh 2 - 1) / sinh 2))"] v
  show ?thesis by simp
qed

lemma fadd_NaN_right: "fadd x NaN = NaN"
  by (cases x) simp_all

lemma fsub_NaN_right: "fsub x NaN = NaN"
  by (simp add: fsub_def fadd_NaN_right)

lemma single_fdp_outside: "x < 0 \<or> 1 < x \<Longrightarrow> single_fdp ms alpha rho x = Inl AssertionError"
  by (auto simp: single_fdp_def)

text \<open>
  C6. The claim, that every out-of-domain input is rejected by a precondition check,
  holds for the fDP evaluator (\<open>single_fdp_outside\<close>) but not for the evaluator of
  \<open>rdp_to_approxdp\<close>: at \<open>delta = 2\<close> and at \<open>delta = -1\<close> it prints its error
  message and goes on to the optimisation with the out-of-domain value, and at
  \<open>delta = -1\<close> the objective it optimises is NaN.
\<close>

theorem rdp_to_approxdp_delta_outside:
  "rdp_to_approxdp ms rdp alpha_max b 2 =
     ([delta_message],
      case ms (approxdp_fun rdp b 2) (approxdp_args alpha_max) of
        Inl e \<Rightarrow> Inl e
      | Inr results \<Rightarrow> if opt_success results then Inr (opt_fun results) else Inr PInf)
   \<and> rdp_to_approxdp ms rdp alpha_max b (- 1) =
     ([delta_message],
      case ms (approxdp_fun rdp b (- 1)) (approxdp_args alpha_max) of
        Inl e \<Rightarrow> Inl e
      | Inr results \<Rightarrow> if opt_success results then Inr (opt_fun results) else Inr PInf)
   \<and> approxdp_fun (puredp_rdp 1) True (- 1) 2 = Inr NaN"
proof -
  have "\<exists>r. puredp_rdp 1 (Fin 2) = Inr r"
    by (simp add: puredp_rdp_def isinf_def flt_def split: prod.splits)
  then obtain r where r: "puredp_rdp 1 (Fin 2) = Inr r" ..
  have "approxdp_fun (puredp_rdp 1) True (- 1) 2 = Inr NaN"
    by (simp add: approxdp_fun_def r fadd_NaN_right fsub_NaN_right np_maximum_def)
  then show ?thesis
    by (simp add: rdp_to_approxdp_def)
qed

section \<open>Properties of composition\<close>

lemma fadd_zero_left: "fadd (Fin 0) x = x"
  by (cases x) simp_all

lemma fmul_one_left: "fmul (Fin 1) x = x"
  by (cases x) (simp_all add: inf_signed_def)

lemma py_max_nonempty: "xs \<noteq> [] \<Longrightarrow> \<exists>d. py_max xs = Inr d"
  by (cases xs) simp_all

lemma compose_returns:
  assumes "zip ml cl \<noteq> []"
  shows "\<exists>st' m. Composition_compose E st ml cl r b f = Inr (st', m)
           \<and> rdp_rep m = Some (newrdp ml cl)
           \<and> approxdp_rep m = Some (if f then fdp_based_route E (newrdp ml cl)
                 else rdp_to_approxdp (scipy_minimize_scalar E) (newrdp ml cl) PInf b)
           \<and> eps_pureDP m = py_sum (map (\<lambda>(mech, c). fmul (Fin c) (eps_pureDP mech)) (zip ml cl))"
proof -
  from assms obtain d where d: "py_max (map (\<lambda>(mech, c). delta0 mech) (zip ml cl)) = Inr d"
    using py_max_nonempty [of "map (\<lambda>(mech, c). delta0 mech) (zip ml cl)"] by auto
  show ?thesis
    by (simp add: Composition_compose_def Mechanism_init_def alloc_def fill_approxdp_def d
        split: prod.splits)
qed


lemma pure_mech_simps:
  "eps_pureDP (pure_mech e) = Fin e" "RenyiDP (pure_mech e) PInf = Inr (Fin e)"
  by (simp_all add: pure_mech_def Mechanism_init_def alloc_def RenyiDP_def puredp_rdp_inf)

lemma sequence_res_Inr: "sequence_res (map Inr xs) = Inr xs"
  by (induction xs) simp_all

lemma py_sum_triples:
  "foldl fadd (Fin a) (map (\<lambda>(mech, c, e). Fin (c * e)) xs) = Fin (a + (\<Sum>(mech, c, e)\<leftarrow>xs. c * e))"
  by (induction xs arbitrary: a) (auto simp: add.assoc)

lemma newrdp_finite:
  assumes "list_all (\<lambda>(mech, c, rho). RenyiDP mech alpha = Inr (Fin rho)) mcr"
  shows "newrdp (map fst mcr) (map (fst \<circ> snd) mcr) alpha
           = Inr (Fin (\<Sum>(mech, c, rho)\<leftarrow>mcr. c * rho))"
proof -
  have "sequence_res
          (map (\<lambda>(mech, c). case RenyiDP mech alpha of Inl e \<Rightarrow> Inl e | Inr v \<Rightarrow> Inr (fmul (Fin c) v))
               (zip (map fst mcr) (map (fst \<circ> snd) mcr)))
        = Inr (map (\<lambda>(mech, c, rho). Fin (c * rho)) mcr)"
    using assms by (induction mcr) auto
  then show ?thesis
    by (simp add: newrdp_def py_sum_def py_sum_triples)
qed


text \<open>
  C2. \<open>compose([A, B], [1, 1])\<close> returns a mechanism whose RDP curve at every order is
  \<open>A.RenyiDP(alpha) + B.RenyiDP(alpha)\<close> (an exception of \<open>A\<close>, then of \<open>B\<close>, is passed
  on); \<open>compose([mech], [1])\<close> reproduces the RDP curve of \<open>mech\<close> pointwise; and in
  general, for a non-empty list of mechanisms with coefficients \<open>c_i\<close> whose curves are
  finite \<open>rho_i\<close> at \<open>alpha\<close>, the composed curve at \<open>alpha\<close> is the weighted sum of the
  \<open>c_i * rho_i\<close>.
\<close>

theorem compose_rdp_additive:
  "(\<exists>st' m. Composition_compose E st [A, B] [1, 1] r b f = Inr (st', m)
       \<and> (\<forall>alpha. RenyiDP m alpha =
             (case RenyiDP A alpha of
                Inl e \<Rightarrow> Inl e
              | Inr a \<Rightarrow> (case RenyiDP B alpha of Inl e \<Rightarrow> Inl e | Inr v \<Rightarrow> Inr (fadd a v)))))
   \<and> (\<exists>st' m. Composition_compose E st [mech] [1] r b f = Inr (st', m)
       \<and> (\<forall>alpha. RenyiDP m alpha = RenyiDP mech alpha))
   \<and> (mcr \<noteq> [] \<and> list_all (\<lambda>(mech, c, rho). RenyiDP mech alpha = Inr (Fin rho)) mcr \<longrightarrow>
       (\<exists>st' m. Composition_compose E st (map fst mcr) (map (fst \<circ> snd) mcr) r b f = Inr (st', m)
          \<and> RenyiDP m alpha = Inr (Fin (\<Sum>(mech, c, rho)\<leftarrow>mcr. c * rho))))"
proof (intro conjI impI)
  obtain st' m where m: "Composition_compose E st [A, B] [1, 1] r b f = Inr (st', m)"
    "rdp_rep m = Some (newrdp [A, B] [1, 1])"
    using compose_returns [of "[A, B]" "[1, 1]" E st r b f] by auto
  have "RenyiDP m alpha =
          (case RenyiDP A alpha of
             Inl e \<Rightarrow> Inl e
           | Inr a \<Rightarrow> (case RenyiDP B alpha of Inl e \<Rightarrow> Inl e | Inr v \<Rightarrow> Inr (fadd a v)))" for alpha
    using m(2)
    by (simp add: RenyiDP_def [of m] newrdp_def py_sum_def fadd_zero_left fmul_one_left
        split: sum.splits)
  with m(1) show "\<exists>st' m. Composition_compose E st [A, B] [1, 1] r b f = Inr (st', m)
       \<and> (\<forall>alpha. RenyiDP m alpha =
             (case RenyiDP A alpha of
                Inl e \<Rightarrow> Inl e
              | Inr a \<Rightarrow> (case RenyiDP B alpha of Inl e \<Rightarrow> Inl e | Inr v \<Rightarrow> Inr (fadd a v))))"
    by blast
next
  obtain st' m where m: "Composition_compose E st [mech] [1] r b f = Inr (st', m)"
    "rdp_rep m = Some (newrdp [mech] [1])"
    using compose_returns [of "[mech]" "[1]" E st r b f] by auto
  have "RenyiDP m alpha = RenyiDP mech alpha" for alpha
    using m(2)
    by (simp add: RenyiDP_def [of m] newrdp_def py_sum_def fadd_zero_left fmul_one_left
        split: sum.splits)
  with m(1) show "\<exists>st' m. Composition_compose E st [mech] [1] r b f = Inr (st', m)
       \<and> (\<forall>alpha. RenyiDP m alpha = RenyiDP mech alpha)"
    by blast
next
  assume a: "mcr \<noteq> [] \<and> list_all (\<lambda>(mech, c, rho). RenyiDP mech alpha = Inr (Fin rho)) mcr"
  then have "zip (map fst mcr) (map (fst \<circ> snd) mcr) \<noteq> []"
    by (cases mcr) simp_all
  then obtain st' m where m:
    "Composition_compose E st (map fst mcr) (map (fst \<circ> snd) mcr) r b f = Inr (st', m)"
    "rdp_rep m = Some (newrdp (map fst mcr) (map (fst \<circ> snd) mcr))"
    using compose_returns [of "map fst mcr" "map (fst \<circ> snd) mcr" E st r b f] by auto
  from a have "newrdp (map fst mcr) (map (fst \<circ> snd) mcr) alpha
           = Inr (Fin (\<Sum>(mech, c, rho)\<leftarrow>mcr. c * rho))"
    by (simp add: newrdp_finite)
  with m show "\<exists>st' m. Composition_compose E st (map fst mcr) (map (fst \<circ> snd) mcr) r b f = Inr (st', m)
          \<and> RenyiDP m alpha = Inr (Fin (\<Sum>(mech, c, rho)\<leftarrow>mcr. c * rho))"
    by (simp add: RenyiDP_def)
qed

theorem compose_rdp_additive_witness:
  "[(pure_mech 3, 2 :: real, 3 :: real)] \<noteq> []
   \<and> list_all (\<lambda>(mech, c, rho). RenyiDP mech PInf = Inr (Fin rho)) [(pure_mech 3, 2, 3)]
   \<and> (\<exists>st' m. Composition_compose stub_env [] [pure_mech 3] [2] True True False = Inr (st', m)
          \<and> RenyiDP m PInf = Inr (Fin 6))"
  using compose_rdp_additive [where mcr = "[(pure_mech 3, 2, 3)]" and alpha = PInf
      and E = stub_env and st = "[]" and r = True and b = True and f = False]
  by (simp add: pure_mech_simps)






section \<open>Properties of the Fourier accountant composition\<close>

lemma phi_flags_eq:
  "phi_flags ml (ex, ub, lb)
     = (ex \<and> list_all exactPhi ml, ub \<or> list_ex flagged_upper ml, lb \<or> list_ex flagged_lower ml)"
  by (induction ml arbitrary: ex ub lb) (auto simp: flagged_upper_def flagged_lower_def)

lemma ComposeAFA_rejects:
  "list_ex flagged_lower ml \<and> list_ex flagged_upper ml \<Longrightarrow>
     ComposeAFA_compose E st ml cl = Inl AssertionError"
  by (simp add: ComposeAFA_compose_def phi_flags_eq Mechanism_init_def alloc_def)

lemma ComposeAFA_accepts:
  "\<not> (list_ex flagged_lower ml \<and> list_ex flagged_upper ml) \<Longrightarrow>
     \<exists>st' m. ComposeAFA_compose E st ml cl = Inr (st', m)"
  by (cases "list_all exactPhi ml"; cases "list_ex flagged_lower ml")
     (simp_all add: ComposeAFA_compose_def phi_flags_eq Mechanism_init_def alloc_def
        fill_approxdp_def)

text \<open>
  The assertion of \<open>ComposeAFA.compose\<close> is decided by the flags: it fails if and only
  if the list has an inexact mechanism whose \<open>upperPhi\<close> is not true and an inexact
  mechanism whose \<open>upperPhi\<close> is true, and every other list is accepted.
\<close>

lemma ComposeAFA_assertion_iff_flags:
  "(ComposeAFA_compose E st ml cl = Inl AssertionError)
     = (list_ex flagged_lower ml \<and> list_ex flagged_upper ml)
   \<and> (\<exists>st' m. ComposeAFA_compose E st ml cl = Inr (st', m))
     = (\<not> (list_ex flagged_lower ml \<and> list_ex flagged_upper ml))"
  using ComposeAFA_rejects [of ml E st cl] ComposeAFA_accepts [of ml E st cl]
  by (cases "list_ex flagged_lower ml \<and> list_ex flagged_upper ml") auto

lemma SubSampleGaussian_phi_lower:
  "\<exists>st1 lo. SubSampleGaussian_phi E B st sigma gamma coeff nm True ub = Inr (st1, lo)
     \<and> carries_only_lower lo \<and> flagged_lower lo"
  by (simp add: SubSampleGaussian_phi_def Mechanism_init_def alloc_def fill_approxdp_def
      carries_only_lower_def flagged_lower_def Let_def)

lemma SubSampleGaussian_phi_upper:
  "\<exists>st1 up. SubSampleGaussian_phi E B st sigma gamma coeff nm False True = Inr (st1, up)
     \<and> carries_only_upper up \<and> flagged_lower up \<and> \<not> flagged_upper up
     \<and> phi_p_upper up = Some (\<lambda>x. phi_subsample_gaussian_p B [(''sigma'', sigma), (''gamma'', gamma)] x False True)"
  by (simp add: SubSampleGaussian_phi_def Mechanism_init_def alloc_def fill_approxdp_def
      carries_only_upper_def flagged_lower_def flagged_upper_def Let_def)

text \<open>
  C8. The claim, that a list is rejected if and only if it has both a mechanism carrying
  only a lower-bound phi-function and one carrying only an upper-bound phi-function,
  fails on the mechanisms the repository builds: \<open>SubSampleGaussian_phi\<close> never assigns
  \<open>upperPhi\<close>, so the mechanism built with \<open>upper_bound=True\<close> counts as a lower bound
  in the flag loop. The list of a mechanism built with \<open>lower_bound=True\<close> and one built
  with \<open>upper_bound=True\<close> passes the assertion and a mechanism is returned.
\<close>

theorem ComposeAFA_accepts_mixed_directions:
  "\<exists>st1 lo st2 up.
     SubSampleGaussian_phi E B st sigma gamma 1 nm True False = Inr (st1, lo)
     \<and> SubSampleGaussian_phi E B st1 sigma gamma 1 nm False True = Inr (st2, up)
     \<and> carries_only_lower lo \<and> carries_only_upper up
     \<and> (\<exists>st' m. ComposeAFA_compose E st2 [lo, up] [1, 1] = Inr (st', m))"
proof -
  obtain st1 lo where lo: "SubSampleGaussian_phi E B st sigma gamma 1 nm True False = Inr (st1, lo)"
    "carries_only_lower lo" "flagged_lower lo"
    using SubSampleGaussian_phi_lower [of E B st sigma gamma 1 nm False] by blast
  obtain st2 up where up: "SubSampleGaussian_phi E B st1 sigma gamma 1 nm False True = Inr (st2, up)"
    "carries_only_upper up" "\<not> flagged_upper up"
    using SubSampleGaussian_phi_upper [of E B st1 sigma gamma 1 nm] by blast
  have "\<not> list_ex flagged_upper [lo, up]"
    using lo(3) up(3) by (simp add: flagged_lower_def flagged_upper_def)
  then have "\<exists>st' m. ComposeAFA_compose E st2 [lo, up] [1, 1] = Inr (st', m)"
    using ComposeAFA_accepts [of "[lo, up]" E st2 "[1, 1]"] by blast
  with lo up show ?thesis by blast
qed




section \<open>Properties of amplification by sampling\<close>

lemma amplify_approxdp:
  assumes "amplify E P st mechanism prob flag = Inr (st', m)"
  shows "approxdp_rep m = Some (new_approxDP mechanism prob)"
  using assms
  by (auto simp: amplify_def Mechanism_init_def alloc_def fill_approxdp_def Let_def
      split: if_splits sum.splits)

lemma amplify_returns:
  assumes "replace_one mechanism = (\<not> P)"
    and "anaRDPacct E P flag (RenyiDP mechanism) prob = Inr new_rdp"
  shows "\<exists>st' m. amplify E P st mechanism prob flag = Inr (st', m)"
  using assms
  by (auto simp: amplify_def Mechanism_init_def alloc_def fill_approxdp_def Let_def)

text \<open>
  C7. Whenever \<open>amplify(mechanism, prob)\<close> returns a mechanism: for \<open>prob = 0\<close> its
  \<open>approxDP(delta)\<close> is 0 at every \<open>delta\<close>; for \<open>prob > 0\<close> it is the closed form
  \<open>log(1 + prob * (exp(eps(delta / prob)) - 1))\<close> of the base mechanism's approx-DP
  curve \<open>eps\<close> (an exception and the output of the base curve are passed on), which for
  a finite base value with \<open>1 + prob * (exp(eps) - 1) > 0\<close> is the real logarithm.
  The call returns when the neighbouring-relation flag of the mechanism matches the
  sampling scheme and the accountant returns (\<open>amplify_returns\<close>).
\<close>

theorem amplify_approxDP_closed_form:
  "(amplify E P st mechanism 0 flag = Inr (st', m) \<longrightarrow> approxDP m delta = ([], Inr (Fin 0)))
   \<and> (0 < prob \<and> amplify E P st mechanism prob flag = Inr (st', m) \<longrightarrow>
        approxDP m delta =
          (case approxDP mechanism (delta / prob) of
             (out, Inl e) \<Rightarrow> (out, Inl e)
           | (out, Inr v) \<Rightarrow>
               (out, Inr (np_log (fadd (Fin 1) (fmul (Fin prob) (fsub (np_exp v) (Fin 1))))))))
   \<and> (0 < prob \<and> amplify E P st mechanism prob flag = Inr (st', m)
        \<and> approxDP mechanism (delta / prob) = (out, Inr (Fin eps))
        \<and> 0 < 1 + prob * (exp eps - 1) \<longrightarrow>
        approxDP m delta = (out, Inr (Fin (ln (1 + prob * (exp eps - 1))))))"
proof (intro conjI impI)
  assume "amplify E P st mechanism 0 flag = Inr (st', m)"
  from amplify_approxdp [OF this] show "approxDP m delta = ([], Inr (Fin 0))"
    by (simp add: approxDP_def new_approxDP_def)
next
  assume "0 < prob \<and> amplify E P st mechanism prob flag = Inr (st', m)"
  then have "approxdp_rep m = Some (new_approxDP mechanism prob)" "prob \<noteq> 0"
    using amplify_approxdp by auto
  then show "approxDP m delta =
          (case approxDP mechanism (delta / prob) of
             (out, Inl e) \<Rightarrow> (out, Inl e)
           | (out, Inr v) \<Rightarrow>
               (out, Inr (np_log (fadd (Fin 1) (fmul (Fin prob) (fsub (np_exp v) (Fin 1)))))))"
    by (simp add: approxDP_def [of m] new_approxDP_def)
next
  assume a: "0 < prob \<and> amplify E P st mechanism prob flag = Inr (st', m)
        \<and> approxDP mechanism (delta / prob) = (out, Inr (Fin eps))
        \<and> 0 < 1 + prob * (exp eps - 1)"
  then have "approxdp_rep m = Some (new_approxDP mechanism prob)" "prob \<noteq> 0"
    using amplify_approxdp by auto
  with a show "approxDP m delta = (out, Inr (Fin (ln (1 + prob * (exp eps - 1)))))"
    by (simp add: approxDP_def [of m] new_approxDP_def fsub_def)
qed

theorem amplify_approxDP_closed_form_witness:
  "(\<exists>st' m. amplify stub_env True [] (pure_mech 1) 0 False = Inr (st', m)
       \<and> approxDP m (1 / 2) = ([], Inr (Fin 0)))
   \<and> (0 :: real) < 1 / 2
   \<and> approxDP (pure_mech 1) (0 / (1 / 2)) = ([], Inr (Fin 1))
   \<and> (0 :: real) < 1 + 1 / 2 * (exp 1 - 1)
   \<and> (\<exists>st' m. amplify stub_env True [] (pure_mech 1) (1 / 2) False = Inr (st', m)
       \<and> approxDP m 0 = ([], Inr (Fin (ln (1 + 1 / 2 * (exp 1 - 1))))))"
proof -
  have r: "replace_one (pure_mech 1) = (\<not> True)"
    by (simp add: pure_mech_def Mechanism_init_def alloc_def)
  have a: "anaRDPacct stub_env True False (RenyiDP (pure_mech 1)) prob = Inr (RenyiDP (pure_mech 1))"
    for prob by (simp add: stub_env_def)
  have b: "approxDP (pure_mech 1) (0 / (1 / 2)) = ([], Inr (Fin 1))"
    by (simp add: approxDP_def pure_mech_def Mechanism_init_def alloc_def puredp_to_approxdp_def
        np_log_r_def)
  have p: "(0 :: real) < 1 + 1 / 2 * (exp 1 - 1)"
    by (simp add: add_pos_nonneg)
  have q: "(0 :: real) < 1 / 2" by simp
  obtain st0 m0 where z: "amplify stub_env True [] (pure_mech 1) 0 False = Inr (st0, m0)"
    using amplify_returns [OF r a] by blast
  obtain st1 m1 where h: "amplify stub_env True [] (pure_mech 1) (1 / 2) False = Inr (st1, m1)"
    using amplify_returns [OF r a] by blast
  from amplify_approxDP_closed_form
         [where E = stub_env and P = True and st = "[]" and mechanism = "pure_mech 1"
            and flag = False and st' = st0 and m = m0 and delta = "1 / 2"] z
  have "approxDP m0 (1 / 2) = ([], Inr (Fin 0))" by blast
  moreover from amplify_approxDP_closed_form
         [where E = stub_env and P = True and st = "[]" and mechanism = "pure_mech 1"
            and flag = False and st' = st1 and m = m1 and delta = 0 and prob = "1 / 2"
            and out = "[]" and eps = 1] h b p q
  have "approxDP m1 0 = ([], Inr (Fin (ln (1 + 1 / 2 * (exp 1 - 1)))))" by blast
  ultimately show ?thesis using z h b p q by blast
qed

lemma compose_keeps_store:
  assumes "Composition_compose E st ml cl r b f = Inr (st', m)" "a < length st"
  shows "deref st' a = deref st a"
  using assms
  by (auto simp: Composition_compose_def Mechanism_init_def alloc_def deref_def nth_append
      Let_def split: sum.splits)

text \<open>
  C5. The claim that a transformer leaves every field of its input unchanged fails for
  \<open>amplify\<close>: \<open>newmech.params = mechanism.params\<close> shares the dictionary and
  \<open>newmech.params.update\<close> then writes into it. For the pure-DP mechanism with epsilon 1,
  whose \<open>params\<close> is \<open>{'eps': 1}\<close>, the call \<open>amplify(mechanism, 0.5)\<close> with Poisson
  sampling either passes on an exception of the accountant or returns, and after it
  returns the input mechanism's \<open>params\<close> is \<open>{'eps': 1, 'PoissonSample': 0.5}\<close>.
  \<open>Composition.compose\<close>, in contrast, builds a new dictionary (\<open>compose_keeps_store\<close>).
\<close>

theorem amplify_mutates_input_params:
  "\<exists>st1 p. PureDP_Mechanism E [] 1 ''PureDP'' = Inr (st1, p)
      \<and> deref st1 (params p) = [(''eps'', Fin 1)]
      \<and> (case anaRDPacct E True False (RenyiDP p) (1 / 2) of
            Inl e \<Rightarrow> amplify E True st1 p (1 / 2) False = Inl e
          | Inr new_rdp \<Rightarrow>
              (\<exists>st2 m. amplify E True st1 p (1 / 2) False = Inr (st2, m)
                 \<and> params m = params p
                 \<and> deref st2 (params p) = [(''eps'', Fin 1), (''PoissonSample'', Fin (1 / 2))]))"
proof -
  have l: "newname_loop ''PoissonSample'' sp [''eps''] 0 = 0" for sp
    by (simp add: newname_loop.simps [of _ _ _ 0] key_of_def newname_of_def)
  show ?thesis
    by (simp add: PureDP_Mechanism_def Mechanism_init_def alloc_def puredp_to_rdp_def
        fill_approxdp_def deref_def amplify_def sampling_name_def l newname_of_def
        nth_append split: sum.splits)
qed

end
